theory Spec2Isabelle
  imports Main "HOL-Library.Word"
begin

section \<open>Host-language values\<close>

text \<open>
  The module under study is the language-server client of the extension
  (\<open>writeEncryptionInit\<close>, class \<open>LspClient\<close>, \<open>activate\<close>, \<open>deactivate\<close>).
  Strings are \<open>string\<close>; a \<open>char\<close> stands for one code unit in the range
  U+0000..U+00FF. Bytes of a \<open>Buffer\<close> or \<open>Uint8Array\<close> are \<open>8 word\<close>.
\<close>

type_synonym byte = "8 word"

text \<open>
  A thrown value or promise rejection. \<open>Error m\<close> is \<open>new Error(m)\<close>; any other
  rejection reason is kept by the text that string conversion gives for it.
\<close>

datatype thrown = Error string | Reason string

text \<open>
  The text that the template literal \<open>${e}\<close> produces for a caught value; for an
  \<open>Error\<close> it is the name alone when the message is empty.
\<close>

fun template_of :: "thrown \<Rightarrow> string" where
  "template_of (Error m) = (if m = [] then ''Error'' else ''Error: '' @ m)"
| "template_of (Reason t) = t"

text \<open>
  What a request method resolves to: \<open>undefined\<close>, the array literal \<open>[]\<close>, or
  the value the transport resolved with.
\<close>

datatype 'r jsvalue = Undefined | EmptyArray | Response 'r

section \<open>JSON.stringify on the payload shapes the client builds\<close>

datatype json =
    JString string
  | JBool bool
  | JArray "json list"
  | JObject "(string \<times> json) list"

definition hex_digit :: "nat \<Rightarrow> char" where
  "hex_digit n = ''0123456789abcdef'' ! n"

definition escape_char :: "char \<Rightarrow> string" where
  "escape_char c =
     (let n = (of_char c :: nat) in
      if n = 0x22 then [CHR 0x5C, CHR 0x22]
      else if n = 0x5C then [CHR 0x5C, CHR 0x5C]
      else if n = 0x08 then [CHR 0x5C, CHR ''b'']
      else if n = 0x0C then [CHR 0x5C, CHR ''f'']
      else if n = 0x0A then [CHR 0x5C, CHR ''n'']
      else if n = 0x0D then [CHR 0x5C, CHR ''r'']
      else if n = 0x09 then [CHR 0x5C, CHR ''t'']
      else if n < 0x20 then
        [CHR 0x5C, CHR ''u'', CHR ''0'', CHR ''0'', hex_digit (n div 16), hex_digit (n mod 16)]
      else [c])"

definition quote_json :: "string \<Rightarrow> string" where
  "quote_json s = [CHR 0x22] @ concat (map escape_char s) @ [CHR 0x22]"

fun join_comma :: "string list \<Rightarrow> string" where
  "join_comma [] = []"
| "join_comma [x] = x"
| "join_comma (x # y # ys) = x @ '','' @ join_comma (y # ys)"

fun JSON_stringify :: "json \<Rightarrow> string" where
  "JSON_stringify (JString s) = quote_json s"
| "JSON_stringify (JBool b) = (if b then ''true'' else ''false'')"
| "JSON_stringify (JArray xs) = ''['' @ join_comma (map JSON_stringify xs) @ '']''"
| "JSON_stringify (JObject ps) =
     ''{'' @ join_comma (map (\<lambda>p. quote_json (fst p) @ '':'' @ JSON_stringify (snd p)) ps) @ ''}''"

section \<open>Buffers: random bytes, base64, UTF-8\<close>

text \<open>
  \<open>crypto.randomBytes(n)\<close> reads \<open>n\<close> bytes from the system's entropy, which is an
  input of the model: a source \<open>src\<close> that gives the byte drawn at each position.
\<close>

definition randomBytes :: "(nat \<Rightarrow> byte) \<Rightarrow> nat \<Rightarrow> byte list" where
  "randomBytes src n = map src [0..<n]"

definition b64_alphabet :: string where
  "b64_alphabet = ''ABCDEFGHIJKLMNOPQRSTUVWXYZabcdefghijklmnopqrstuvwxyz0123456789+/''"

definition b64_char :: "nat \<Rightarrow> char" where
  "b64_char n = b64_alphabet ! n"

text \<open>\<open>buf.toString('base64')\<close>: the standard alphabet, padded with \<open>=\<close>.\<close>

fun toString_base64 :: "byte list \<Rightarrow> string" where
  "toString_base64 [] = []"
| "toString_base64 [a] =
     [b64_char (unat a div 4), b64_char ((unat a mod 4) * 16), CHR ''='', CHR ''='']"
| "toString_base64 [a, b] =
     [b64_char (unat a div 4), b64_char ((unat a mod 4) * 16 + unat b div 16),
      b64_char ((unat b mod 16) * 4), CHR ''='']"
| "toString_base64 (a # b # c # rest) =
     [b64_char (unat a div 4), b64_char ((unat a mod 4) * 16 + unat b div 16),
      b64_char ((unat b mod 16) * 4 + unat c div 64), b64_char (unat c mod 64)]
     @ toString_base64 rest"

text \<open>\<open>new TextEncoder().encode(s)\<close> on code units up to U+00FF.\<close>

definition utf8_unit :: "char \<Rightarrow> byte list" where
  "utf8_unit c =
     (let n = (of_char c :: nat) in
      if n < 0x80 then [of_nat n]
      else [of_nat (0xC0 + n div 64), of_nat (0x80 + n mod 64)])"

definition TextEncoder_encode :: "string \<Rightarrow> byte list" where
  "TextEncoder_encode s = concat (map utf8_unit s)"

section \<open>The bootstrap message\<close>

text \<open>A \<open>Writable\<close> stream, by the chunks written to it so far, in order.\<close>

record Writable =
  chunks :: "string list"

definition stream_write :: "string \<Rightarrow> Writable \<Rightarrow> Writable" where
  "stream_write data s = s\<lparr>chunks := chunks s @ [data]\<rparr>"

definition stream_data :: "Writable \<Rightarrow> string" where
  "stream_data s = concat (chunks s)"

definition writeEncryptionInit :: "byte list \<Rightarrow> Writable \<Rightarrow> Writable" where
  "writeEncryptionInit key stream =
     (let request = JObject [(''version'', JString ''1.0''),
                             (''mode'', JString ''JWT''),
                             (''key'', JString (toString_base64 key))]
      in stream_write ''\<newline>'' (stream_write (JSON_stringify request) stream))"

text \<open>\<open>Number.prototype.toString\<close> on an integral number: decimal digits, with a sign.\<close>

definition digit_char :: "nat \<Rightarrow> char" where
  "digit_char n = ''0123456789'' ! n"

fun digits :: "nat \<Rightarrow> string" where
  "digits n = (if n < 10 then [digit_char n] else digits (n div 10) @ [digit_char (n mod 10)])"

definition Number_toString :: "int \<Rightarrow> string" where
  "Number_toString i = (if i < 0 then ''-'' @ digits (nat (- i)) else digits (nat i))"

section \<open>Asynchronous operations with a log and a transport\<close>

text \<open>
  Modelled from the spec: the request tags are imported from the module \<open>./types\<close>,
  which is not part of the sources at hand; each request kind is mapped to a distinct
  tag on the shared channel, so the tags are the constructors of a datatype.
\<close>

datatype request_type =
    IndexRequestType
  | BuildIndexRequestType
  | QueryRequestType
  | QueryBM25IndexRequestType
  | QueryVectorIndexRequestType
  | QueryCodeMapIndexRequestType
  | GetUsageRequestType
  | UpdateIndexRequestType
  | UpdateIndexV2RequestType

text \<open>
  The effects a request method can have: entries given to \<open>getLogger().error\<close>,
  requests handed to \<open>sendRequest\<close> of the language client (tag and payload), and the
  number of encryptions done so far (the encryption library draws a fresh
  initialisation vector for each one, so its result depends on the call).
\<close>

record io =
  logged :: "string list"
  sent :: "(request_type \<times> string) list"
  encrypt_calls :: nat

text \<open>
  An asynchronous operation: run from a state, it resolves (\<open>Inr\<close>) or rejects
  (\<open>Inl\<close>), and leaves a state.
\<close>

type_synonym 'a prog = "io \<Rightarrow> (thrown + 'a) \<times> io"

definition resolve :: "'a \<Rightarrow> 'a prog" where
  "resolve x = (\<lambda>s. (Inr x, s))"

definition reject :: "thrown \<Rightarrow> 'a prog" where
  "reject e = (\<lambda>s. (Inl e, s))"

definition await :: "'a prog \<Rightarrow> ('a \<Rightarrow> 'b prog) \<Rightarrow> 'b prog" where
  "await m f = (\<lambda>s. case m s of (Inl e, s') \<Rightarrow> (Inl e, s') | (Inr x, s') \<Rightarrow> f x s')"

definition try_catch :: "'a prog \<Rightarrow> (thrown \<Rightarrow> 'a prog) \<Rightarrow> 'a prog" where
  "try_catch body handler =
     (\<lambda>s. case body s of (Inl e, s') \<Rightarrow> handler e s' | (Inr x, s') \<Rightarrow> (Inr x, s'))"

definition getLogger_error :: "string \<Rightarrow> unit prog" where
  "getLogger_error msg = (\<lambda>s. (Inr (), s\<lparr>logged := logged s @ [msg]\<rparr>))"

text \<open>
  The language client, by what \<open>sendRequest(tag, payload)\<close> settles to: a response
  or a rejection.
\<close>

type_synonym 'r LanguageClient = "request_type \<Rightarrow> string \<Rightarrow> thrown + 'r"

definition sendRequest :: "'r LanguageClient \<Rightarrow> request_type \<Rightarrow> string \<Rightarrow> 'r jsvalue prog" where
  "sendRequest c tag payload =
     (\<lambda>s. (case c tag payload of Inl e \<Rightarrow> Inl e | Inr r \<Rightarrow> Inr (Response r),
           s\<lparr>sent := sent s @ [(tag, payload)]\<rparr>))"

text \<open>\<open>this.client?.sendRequest(tag, payload)\<close>\<close>

definition sendRequest_opt ::
  "'r LanguageClient option \<Rightarrow> request_type \<Rightarrow> string \<Rightarrow> 'r jsvalue prog" where
  "sendRequest_opt client tag payload =
     (case client of None \<Rightarrow> resolve Undefined | Some c \<Rightarrow> sendRequest c tag payload)"

section \<open>Encryption\<close>

record header =
  alg :: string
  enc :: string

text \<open>
  The encryption library is an input of the model:
  \<open>new jose.CompactEncrypt(plaintext).setProtectedHeader(h).encrypt(key)\<close> is
  \<open>CompactEncrypt plaintext h key n\<close> at the \<open>n\<close>-th encryption of the process; it
  resolves with the compact serialization or rejects.
\<close>

type_synonym CompactEncrypt = "byte list \<Rightarrow> header \<Rightarrow> byte list \<Rightarrow> nat \<Rightarrow> thrown + string"

definition encrypt :: "CompactEncrypt \<Rightarrow> byte list \<Rightarrow> string \<Rightarrow> string prog" where
  "encrypt jose key payload =
     (\<lambda>s. (jose (TextEncoder_encode payload) \<lparr>alg = ''dir'', enc = ''A256GCM''\<rparr> key
              (encrypt_calls s),
           s\<lparr>encrypt_calls := Suc (encrypt_calls s)\<rparr>))"

section \<open>The request methods of LspClient\<close>

record 'r LspClient =
  client :: "'r LanguageClient option"

record TextDocument =
  languageId :: string

record TextEditor =
  document :: TextDocument

definition indexFiles ::
  "CompactEncrypt \<Rightarrow> byte list \<Rightarrow> 'r LspClient \<Rightarrow> string list \<Rightarrow> string \<Rightarrow> bool
    \<Rightarrow> 'r jsvalue prog" where
  "indexFiles jose key this request rootPath refresh =
     try_catch
       (await (encrypt jose key
                 (JSON_stringify (JObject [(''filePaths'', JArray (map JString request)),
                                           (''rootPath'', JString rootPath),
                                           (''refresh'', JBool refresh)])))
          (\<lambda>encryptedRequest.
             await (sendRequest_opt (client this) IndexRequestType encryptedRequest)
               (\<lambda>resp. resolve resp)))
       (\<lambda>e. await (getLogger_error (''LspClient: indexFiles error: '' @ template_of e))
               (\<lambda>_. resolve Undefined))"

text \<open>
  The payload of \<open>indexFilesV2\<close>; \<open>activeTextEditor\<close> is
  \<open>vscode.window.activeTextEditor\<close> at the time of the call.
\<close>

definition indexFilesV2_payload :: "TextEditor option \<Rightarrow> string list \<Rightarrow> string \<Rightarrow> json" where
  "indexFilesV2_payload activeTextEditor paths rootPath =
     (let language = (case activeTextEditor of
                        None \<Rightarrow> ''plaintext''
                      | Some editor \<Rightarrow> languageId (document editor))
      in JObject [(''filePaths'', JArray (map JString paths)),
                  (''projectRoot'', JString rootPath),
                  (''config'', JString ''all''),
                  (''language'', JString language)])"

definition indexFilesV2 ::
  "CompactEncrypt \<Rightarrow> byte list \<Rightarrow> 'r LspClient \<Rightarrow> TextEditor option \<Rightarrow> string list \<Rightarrow> string
    \<Rightarrow> 'r jsvalue prog" where
  "indexFilesV2 jose key this activeTextEditor paths rootPath =
     (let payload = indexFilesV2_payload activeTextEditor paths rootPath in
      try_catch
        (await (encrypt jose key (JSON_stringify payload))
           (\<lambda>encryptedRequest.
              await (sendRequest_opt (client this) BuildIndexRequestType encryptedRequest)
                (\<lambda>resp. resolve resp)))
        (\<lambda>e. await (getLogger_error (''LspClient: indexFilesV2 error: '' @ template_of e))
                (\<lambda>_. resolve Undefined)))"

definition query ::
  "CompactEncrypt \<Rightarrow> byte list \<Rightarrow> 'r LspClient \<Rightarrow> string \<Rightarrow> 'r jsvalue prog" where
  "query jose key this request =
     try_catch
       (await (encrypt jose key (JSON_stringify (JObject [(''query'', JString request)])))
          (\<lambda>encryptedRequest.
             await (sendRequest_opt (client this) QueryRequestType encryptedRequest)
               (\<lambda>resp. resolve resp)))
       (\<lambda>e. await (getLogger_error (''LspClient: query error: '' @ template_of e))
               (\<lambda>_. resolve EmptyArray))"

text \<open>
  \<open>target\<close> is declared \<open>'bm25' | 'vector' | 'codemap'\<close>; at run time it is a
  string, and the \<open>switch\<close> has a \<open>default\<close> branch for any other one.
\<close>

definition queryV2 ::
  "CompactEncrypt \<Rightarrow> byte list \<Rightarrow> 'r LspClient \<Rightarrow> string \<Rightarrow> string \<Rightarrow> 'r jsvalue prog" where
  "queryV2 jose key this query' target =
     try_catch
       (let request = (if target = ''codemap''
                       then JSON_stringify (JObject [(''filePath'', JString query')])
                       else JSON_stringify (JObject [(''query'', JString query')]))
        in await (encrypt jose key request)
             (\<lambda>encrpted.
                await (if target = ''bm25'' then
                         sendRequest_opt (client this) QueryBM25IndexRequestType encrpted
                       else if target = ''vector'' then
                         sendRequest_opt (client this) QueryVectorIndexRequestType encrpted
                       else if target = ''codemap'' then
                         sendRequest_opt (client this) QueryCodeMapIndexRequestType encrpted
                       else reject (Error (''invalid target: '' @ target)))
                  (\<lambda>resp. resolve resp)))
       (\<lambda>e. await (getLogger_error (''LspClient: query error: '' @ template_of e))
               (\<lambda>_. resolve EmptyArray))"

definition getLspServerUsage :: "'r LspClient \<Rightarrow> 'r jsvalue prog" where
  "getLspServerUsage this =
     (case client this of
        Some c \<Rightarrow> await (sendRequest c GetUsageRequestType []) (\<lambda>usage. resolve usage)
      | None \<Rightarrow> resolve Undefined)"

definition updateIndex ::
  "CompactEncrypt \<Rightarrow> byte list \<Rightarrow> 'r LspClient \<Rightarrow> string \<Rightarrow> 'r jsvalue prog" where
  "updateIndex jose key this filePath =
     try_catch
       (await (encrypt jose key (JSON_stringify (JObject [(''filePath'', JString filePath)])))
          (\<lambda>encryptedRequest.
             await (sendRequest_opt (client this) UpdateIndexRequestType encryptedRequest)
               (\<lambda>resp. resolve resp)))
       (\<lambda>e. await (getLogger_error (''LspClient: updateIndex error: '' @ template_of e))
               (\<lambda>_. resolve Undefined))"

definition updateIndexV2 ::
  "CompactEncrypt \<Rightarrow> byte list \<Rightarrow> 'r LspClient \<Rightarrow> string list \<Rightarrow> string \<Rightarrow> 'r jsvalue prog" where
  "updateIndexV2 jose key this filePath mode =
     (let payload = JObject [(''filePaths'', JArray (map JString filePath)),
                             (''updateMode'', JString mode)] in
      try_catch
        (await (encrypt jose key (JSON_stringify payload))
           (\<lambda>encryptedRequest.
              await (sendRequest_opt (client this) UpdateIndexV2RequestType encryptedRequest)
                (\<lambda>resp. resolve resp)))
        (\<lambda>e. await (getLogger_error (''LspClient: updateIndexV2 error: '' @ template_of e))
                (\<lambda>_. resolve Undefined)))"

section \<open>The module: session key, singleton, activation\<close>

text \<open>
  Modelled from the spec: the settings provider \<open>CodeWhispererSettings\<close> is not part
  of the sources at hand; it is taken by the two values \<open>activate\<close> reads from it.
  The worker-thread count is an integral number.
\<close>

record CodeWhispererSettings =
  getIndexWorkerThreads :: int
  isLocalIndexGPUEnabled :: bool

text \<open>
  A spawned child process, by the environment it was started with and what has been
  written to its standard input. Its command line is left out.
\<close>

record ChildProcess =
  child_env :: "string \<rightharpoonup> string"
  stdin :: Writable

text \<open>
  The state of the loaded module: the constant \<open>key\<close>, the static field
  \<open>#instance\<close> (a reference into \<open>heap\<close>, the \<open>LspClient\<close> objects created so far),
  \<open>process.env\<close>, the children spawned, and the effects of the requests.
\<close>

record 'r module =
  key :: "byte list"
  static_instance :: "nat option"
  heap :: "'r LspClient list"
  process_env :: "string \<rightharpoonup> string"
  children :: "ChildProcess list"
  world :: io

text \<open>Loading the module runs \<open>const key = crypto.randomBytes(32)\<close>.\<close>

definition module_load :: "(nat \<Rightarrow> byte) \<Rightarrow> (string \<rightharpoonup> string) \<Rightarrow> 'r module" where
  "module_load src penv =
     \<lparr>key = randomBytes src 32, static_instance = None, heap = [], process_env = penv,
      children = [], world = \<lparr>logged = [], sent = [], encrypt_calls = 0\<rparr>\<rparr>"

text \<open>
  The getter \<open>LspClient.instance\<close>: \<open>this.#instance ??= new this()\<close>. The
  constructor sets \<open>client\<close> to \<open>undefined\<close>.
\<close>

definition LspClient_instance :: "'r module \<Rightarrow> nat \<times> 'r module" where
  "LspClient_instance m =
     (case static_instance m of
        Some a \<Rightarrow> (a, m)
      | None \<Rightarrow> (length (heap m),
                 m\<lparr>heap := heap m @ [\<lparr>client = None\<rparr>], static_instance := Some (length (heap m))\<rparr>))"

definition set_client :: "nat \<Rightarrow> 'r LanguageClient option \<Rightarrow> 'r module \<Rightarrow> 'r module" where
  "set_client a c m = m\<lparr>heap := (heap m)[a := (heap m ! a)\<lparr>client := c\<rparr>]\<rparr>"

text \<open>
  \<open>activate\<close>, from the first access to \<open>LspClient.instance\<close> to the assignment of
  the new language client; \<open>languageClient\<close> is the object that
  \<open>new LanguageClient(...)\<close> creates. The subscriptions are left out.
\<close>

definition activate ::
  "CodeWhispererSettings \<Rightarrow> 'r LanguageClient \<Rightarrow> 'r module \<Rightarrow> 'r module" where
  "activate settings languageClient m =
     (let m1 = snd (LspClient_instance m);
          workerThreads = getIndexWorkerThreads settings;
          gpu = isLocalIndexGPUEnabled settings;
          env1 = (if gpu then (process_env m1)(''Q_ENABLE_GPU'' \<mapsto> ''true'')
                  else (process_env m1)(''Q_ENABLE_GPU'' := None));
          env2 = (if workerThreads > 0 \<and> workerThreads < 100
                  then env1(''Q_WORKER_THREADS'' \<mapsto> Number_toString workerThreads)
                  else env1(''Q_WORKER_THREADS'' := None));
          child = \<lparr>child_env = env2, stdin = \<lparr>chunks = []\<rparr>\<rparr>;
          child' = child\<lparr>stdin := writeEncryptionInit (key m1) (stdin child)\<rparr>;
          m2 = m1\<lparr>process_env := env2, children := children m1 @ [child']\<rparr>;
          (a, m3) = LspClient_instance m2
      in set_client a (Some languageClient) m3)"

text \<open>
  \<open>deactivate\<close> reads \<open>LspClient.instance.client\<close> and, when it is set, stops it;
  stopping is the language client's own business and leaves the module as it is.
\<close>

definition deactivate :: "'r module \<Rightarrow> 'r module" where
  "deactivate m =
     (let (a, m1) = LspClient_instance m in
      case client (heap m1 ! a) of
        None \<Rightarrow> m1
      | Some c \<Rightarrow> snd (LspClient_instance m1))"

text \<open>
  What the rest of the extension can do with the module: read the singleton, activate,
  deactivate, and call a method on \<open>LspClient.instance\<close>.
\<close>

datatype 'r call =
    CallInstance
  | CallActivate CodeWhispererSettings "'r LanguageClient"
  | CallDeactivate
  | CallEncrypt string
  | CallIndexFiles "string list" string bool
  | CallIndexFilesV2 "TextEditor option" "string list" string
  | CallQuery string
  | CallQueryV2 string string
  | CallGetLspServerUsage
  | CallUpdateIndex string
  | CallUpdateIndexV2 "string list" string

definition on_instance :: "('r LspClient \<Rightarrow> 'a prog) \<Rightarrow> 'r module \<Rightarrow> 'r module" where
  "on_instance method m =
     (let (a, m1) = LspClient_instance m
      in m1\<lparr>world := snd (method (heap m1 ! a) (world m1))\<rparr>)"

fun exec :: "CompactEncrypt \<Rightarrow> 'r call \<Rightarrow> 'r module \<Rightarrow> 'r module" where
  "exec jose CallInstance m = snd (LspClient_instance m)"
| "exec jose (CallActivate settings languageClient) m = activate settings languageClient m"
| "exec jose CallDeactivate m = deactivate m"
| "exec jose (CallEncrypt payload) m = on_instance (\<lambda>this. encrypt jose (key m) payload) m"
| "exec jose (CallIndexFiles request rootPath refresh) m =
     on_instance (\<lambda>this. indexFiles jose (key m) this request rootPath refresh) m"
| "exec jose (CallIndexFilesV2 activeTextEditor paths rootPath) m =
     on_instance (\<lambda>this. indexFilesV2 jose (key m) this activeTextEditor paths rootPath) m"
| "exec jose (CallQuery request) m = on_instance (\<lambda>this. query jose (key m) this request) m"
| "exec jose (CallQueryV2 request target) m =
     on_instance (\<lambda>this. queryV2 jose (key m) this request target) m"
| "exec jose CallGetLspServerUsage m = on_instance getLspServerUsage m"
| "exec jose (CallUpdateIndex filePath) m =
     on_instance (\<lambda>this. updateIndex jose (key m) this filePath) m"
| "exec jose (CallUpdateIndexV2 filePath mode) m =
     on_instance (\<lambda>this. updateIndexV2 jose (key m) this filePath mode) m"

definition run :: "CompactEncrypt \<Rightarrow> 'r call list \<Rightarrow> 'r module \<Rightarrow> 'r module" where
  "run jose calls m = fold (exec jose) calls m"

section \<open>Concrete collaborators for evaluation\<close>

text \<open>
  Stand-ins for the inputs of the model, used where a statement is evaluated at a
  concrete input: an encryption that resolves, one that rejects, a transport that
  answers with the payload it got, and one that rejects.
\<close>

definition resolving_jose :: CompactEncrypt where
  "resolving_jose plaintext h cek n = Inr (''jwe.'' @ digits n)"

definition rejecting_jose :: CompactEncrypt where
  "rejecting_jose plaintext h cek n = Inl (Error ''Invalid key size'')"

definition echo_client :: "string LanguageClient" where
  "echo_client tag payload = Inr payload"

definition rejecting_client :: "string LanguageClient" where
  "rejecting_client tag payload = Inl (Error ''Connection is closed.'')"

definition counting_source :: "nat \<Rightarrow> byte" where
  "counting_source i = of_nat i"

definition io0 :: io where
  "io0 = \<lparr>logged = [], sent = [], encrypt_calls = 0\<rparr>"

text \<open>An encryption whose result shows the key it was given.\<close>

definition key_revealing_jose :: CompactEncrypt where
  "key_revealing_jose plaintext h cek n = Inr (toString_base64 cek)"

text \<open>A library that answers as \<open>jose\<close> does under the key \<open>K\<close> and rejects any other key.\<close>

definition only_under :: "byte list \<Rightarrow> CompactEncrypt \<Rightarrow> CompactEncrypt" where
  "only_under K jose plaintext h cek n =
     (if cek = K then jose plaintext h cek n else Inl (Error ''wrong key''))"

section \<open>Reading the statements\<close>

text \<open>A field of a JSON object, by its name.\<close>

fun json_field :: "string \<Rightarrow> json \<Rightarrow> json option" where
  "json_field name (JObject ps) = map_of ps name"
| "json_field name other = None"

text \<open>
  The tag that the specification gives each target of \<open>queryV2\<close>; it is compared with
  what the \<open>switch\<close> of the method does.
\<close>

datatype target = Bm25 | Vector | Codemap

fun target_name :: "target \<Rightarrow> string" where
  "target_name Bm25 = ''bm25''"
| "target_name Vector = ''vector''"
| "target_name Codemap = ''codemap''"

fun target_request_type :: "target \<Rightarrow> request_type" where
  "target_request_type Bm25 = QueryBM25IndexRequestType"
| "target_request_type Vector = QueryVectorIndexRequestType"
| "target_request_type Codemap = QueryCodeMapIndexRequestType"

fun target_payload :: "target \<Rightarrow> string \<Rightarrow> json" where
  "target_payload Codemap q = JObject [(''filePath'', JString q)]"
| "target_payload t q = JObject [(''query'', JString q)]"

text \<open>The bootstrap line for a key, as the specification writes it.\<close>

definition init_line :: "byte list \<Rightarrow> string" where
  \<open>init_line k = ''{"version":"1.0","mode":"JWT","key":"'' @ toString_base64 k @ ''"}''\<close>

text \<open>
  The request envelope that goes over the channel for a tag once the payload has been
  encrypted: none when the encryption rejected.
\<close>

fun envelope :: "request_type \<Rightarrow> thrown + string \<Rightarrow> (request_type \<times> string) list" where
  "envelope tag (Inr encrypted) = [(tag, encrypted)]"
| "envelope tag (Inl e) = []"

text \<open>
  The invariant of the module for a session key \<open>K\<close>: the key is \<open>K\<close>, at most one
  \<open>LspClient\<close> object exists and \<open>#instance\<close> refers to it, and every child got the
  bootstrap message for \<open>K\<close> as the only data on its standard input.
\<close>

definition module_inv :: "byte list \<Rightarrow> 'r module \<Rightarrow> bool" where
  "module_inv K m \<longleftrightarrow>
     key m = K
     \<and> ((static_instance m = None \<and> heap m = [])
        \<or> (static_instance m = Some 0 \<and> length (heap m) = 1))
     \<and> list_all (\<lambda>child. stdin child = writeEncryptionInit K \<lparr>chunks = []\<rparr>) (children m)"

section \<open>Properties: the shape of a request\<close>

lemmas prog_defs = resolve_def reject_def await_def try_catch_def getLogger_error_def
  sendRequest_def sendRequest_opt_def encrypt_def

lemma encrypt_fst:
  "fst (encrypt jose k p s) =
     jose (TextEncoder_encode p) \<lparr>alg = ''dir'', enc = ''A256GCM''\<rparr> k (encrypt_calls s)"
  by (simp add: encrypt_def)

text \<open>
  Five of the six encrypted request methods are the same block with another payload,
  tag, log text and sentinel, and so is \<open>queryV2\<close> on a declared target. What the block
  does, by the outcome of the encryption, the presence of the client and the outcome of
  the transport:
\<close>

lemma request_shape:
  "try_catch
     (await (encrypt jose k p)
        (\<lambda>encrypted. await (sendRequest_opt cl tag encrypted) (\<lambda>resp. resolve resp)))
     (\<lambda>e. await (getLogger_error (msg e)) (\<lambda>_. resolve sentinel)) s =
   (case jose (TextEncoder_encode p) \<lparr>alg = ''dir'', enc = ''A256GCM''\<rparr> k (encrypt_calls s) of
      Inl e \<Rightarrow> (Inr sentinel, s\<lparr>encrypt_calls := Suc (encrypt_calls s),
                                logged := logged s @ [msg e]\<rparr>)
    | Inr ct \<Rightarrow>
        (case cl of
           None \<Rightarrow> (Inr Undefined, s\<lparr>encrypt_calls := Suc (encrypt_calls s)\<rparr>)
         | Some c \<Rightarrow>
             (case c tag ct of
                Inl e \<Rightarrow> (Inr sentinel, s\<lparr>encrypt_calls := Suc (encrypt_calls s),
                                          sent := sent s @ [(tag, ct)],
                                          logged := logged s @ [msg e]\<rparr>)
              | Inr r \<Rightarrow> (Inr (Response r), s\<lparr>encrypt_calls := Suc (encrypt_calls s),
                                              sent := sent s @ [(tag, ct)]\<rparr>))))"
  by (simp add: prog_defs split: sum.splits option.splits)

lemma queryV2_declared:
  "queryV2 jose k this q (target_name t) =
     try_catch
       (await (encrypt jose k (JSON_stringify (target_payload t q)))
          (\<lambda>encrypted.
             await (sendRequest_opt (client this) (target_request_type t) encrypted)
               (\<lambda>resp. resolve resp)))
       (\<lambda>e. await (getLogger_error (''LspClient: query error: '' @ template_of e))
               (\<lambda>_. resolve EmptyArray))"
  by (cases t) (simp_all add: queryV2_def)

lemma sent_request:
  "sent (snd (try_catch
     (await (encrypt jose k p)
        (\<lambda>encrypted. await (sendRequest_opt (Some c) tag encrypted) (\<lambda>resp. resolve resp)))
     (\<lambda>e. await (getLogger_error (msg e)) (\<lambda>_. resolve sentinel)) s))
   = sent s @ envelope tag (fst (encrypt jose k p s))"
  by (simp add: request_shape encrypt_fst split: sum.splits)

section \<open>Properties: an absent channel\<close>

text \<open>
  Claim C1 says that a request method called while the channel handle is absent logs
  the failure and returns the sentinel of its kind, so that \<open>query("foo")\<close> returns
  \<open>[]\<close>. The optional call \<open>this.client?.sendRequest\<close> does not throw when the client
  is absent: it evaluates to \<open>undefined\<close>, the \<open>catch\<close> block is not entered, and
  the method returns \<open>undefined\<close> without a log entry. At the concrete input below
  \<open>query("foo")\<close> does not return \<open>[]\<close> and the log stays empty.
\<close>

theorem query_absent_channel_counterexample:
  "fst (query resolving_jose (randomBytes counting_source 32)
          (\<lparr>client = None\<rparr> :: string LspClient) ''foo'' io0) \<noteq> Inr EmptyArray
   \<and> logged (snd (query resolving_jose (randomBytes counting_source 32)
          (\<lparr>client = None\<rparr> :: string LspClient) ''foo'' io0)) = []"
  by (simp add: query_def request_shape resolving_jose_def io0_def)

text \<open>
  Claim C1, amended: when the channel handle is absent and the encryption of the
  payload resolves, each of \<open>indexFiles\<close>, \<open>indexFilesV2\<close>, \<open>query\<close>, \<open>queryV2\<close> (on a
  declared target), \<open>updateIndex\<close> and \<open>updateIndexV2\<close> resolves without throwing, to
  \<open>undefined\<close>, for the listing kinds too; nothing is logged and nothing is sent (the
  state changes by the count of encryptions only).
\<close>

theorem absent_channel_resolves_undefined:
  assumes "client this = None"
    and "\<And>p. \<exists>ct. fst (encrypt jose k p s) = Inr ct"
  shows "indexFiles jose k this request rootPath refresh s
           = (Inr Undefined, s\<lparr>encrypt_calls := Suc (encrypt_calls s)\<rparr>)
       \<and> indexFilesV2 jose k this editor paths rootPath s
           = (Inr Undefined, s\<lparr>encrypt_calls := Suc (encrypt_calls s)\<rparr>)
       \<and> query jose k this request' s
           = (Inr Undefined, s\<lparr>encrypt_calls := Suc (encrypt_calls s)\<rparr>)
       \<and> queryV2 jose k this request' (target_name t) s
           = (Inr Undefined, s\<lparr>encrypt_calls := Suc (encrypt_calls s)\<rparr>)
       \<and> updateIndex jose k this filePath s
           = (Inr Undefined, s\<lparr>encrypt_calls := Suc (encrypt_calls s)\<rparr>)
       \<and> updateIndexV2 jose k this filePaths mode s
           = (Inr Undefined, s\<lparr>encrypt_calls := Suc (encrypt_calls s)\<rparr>)"
proof -
  have enc: "\<And>p. \<exists>ct. jose (TextEncoder_encode p) \<lparr>alg = ''dir'', enc = ''A256GCM''\<rparr> k
                         (encrypt_calls s) = Inr ct"
    using assms(2) by (simp add: encrypt_fst)
  have shape: "\<And>p tag msg sentinel.
     try_catch
       (await (encrypt jose k p)
          (\<lambda>encrypted. await (sendRequest_opt (client this) tag encrypted) (\<lambda>resp. resolve resp)))
       (\<lambda>e. await (getLogger_error (msg e)) (\<lambda>_. resolve sentinel)) s
     = (Inr Undefined, s\<lparr>encrypt_calls := Suc (encrypt_calls s)\<rparr>)"
  proof -
    fix p tag and msg :: "thrown \<Rightarrow> string" and sentinel :: "'a jsvalue"
    obtain ct where
      "jose (TextEncoder_encode p) \<lparr>alg = ''dir'', enc = ''A256GCM''\<rparr> k (encrypt_calls s) = Inr ct"
      using enc by blast
    then show "try_catch
       (await (encrypt jose k p)
          (\<lambda>encrypted. await (sendRequest_opt (client this) tag encrypted) (\<lambda>resp. resolve resp)))
       (\<lambda>e. await (getLogger_error (msg e)) (\<lambda>_. resolve sentinel)) s
     = (Inr Undefined, s\<lparr>encrypt_calls := Suc (encrypt_calls s)\<rparr>)"
      by (simp add: request_shape assms(1))
  qed
  show ?thesis
    by (simp add: indexFiles_def indexFilesV2_def query_def queryV2_declared updateIndex_def
        updateIndexV2_def shape)
qed

text \<open>
  The amended claim at a concrete input: no channel, an encryption that resolves,
  \<open>query("foo")\<close> from the initial state.
\<close>

theorem absent_channel_witness:
  "client (\<lparr>client = None\<rparr> :: string LspClient) = None
   \<and> query resolving_jose (randomBytes counting_source 32)
       (\<lparr>client = None\<rparr> :: string LspClient) ''foo'' io0
     = (Inr Undefined, io0\<lparr>encrypt_calls := 1\<rparr>)"
  using absent_channel_resolves_undefined
    [where this = "\<lparr>client = None\<rparr> :: string LspClient" and jose = resolving_jose
       and k = "randomBytes counting_source 32" and s = io0 and request' = "''foo''"]
  by (simp add: encrypt_def resolving_jose_def io0_def)

text \<open>
  The other way through an absent channel: when the encryption rejects, the \<open>catch\<close>
  block is entered whether or not a client is set, the rejection is logged once and the
  sentinel of the kind is returned.
\<close>

lemma encryption_rejects_logged_once:
  assumes "\<And>p. fst (encrypt jose k p s) = Inl e"
  shows "indexFiles jose k this request rootPath refresh s
           = (Inr Undefined, s\<lparr>encrypt_calls := Suc (encrypt_calls s),
                logged := logged s @ [''LspClient: indexFiles error: '' @ template_of e]\<rparr>)
       \<and> indexFilesV2 jose k this editor paths rootPath s
           = (Inr Undefined, s\<lparr>encrypt_calls := Suc (encrypt_calls s),
                logged := logged s @ [''LspClient: indexFilesV2 error: '' @ template_of e]\<rparr>)
       \<and> query jose k this request' s
           = (Inr EmptyArray, s\<lparr>encrypt_calls := Suc (encrypt_calls s),
                logged := logged s @ [''LspClient: query error: '' @ template_of e]\<rparr>)
       \<and> queryV2 jose k this request' (target_name t) s
           = (Inr EmptyArray, s\<lparr>encrypt_calls := Suc (encrypt_calls s),
                logged := logged s @ [''LspClient: query error: '' @ template_of e]\<rparr>)
       \<and> updateIndex jose k this filePath s
           = (Inr Undefined, s\<lparr>encrypt_calls := Suc (encrypt_calls s),
                logged := logged s @ [''LspClient: updateIndex error: '' @ template_of e]\<rparr>)
       \<and> updateIndexV2 jose k this filePaths mode s
           = (Inr Undefined, s\<lparr>encrypt_calls := Suc (encrypt_calls s),
                logged := logged s @ [''LspClient: updateIndexV2 error: '' @ template_of e]\<rparr>)"
proof -
  have enc: "\<And>p. jose (TextEncoder_encode p) \<lparr>alg = ''dir'', enc = ''A256GCM''\<rparr> k
                      (encrypt_calls s) = Inl e"
    using assms by (simp add: encrypt_fst)
  have shape: "\<And>p tag msg sentinel.
     try_catch
       (await (encrypt jose k p)
          (\<lambda>encrypted. await (sendRequest_opt (client this) tag encrypted) (\<lambda>resp. resolve resp)))
       (\<lambda>e. await (getLogger_error (msg e)) (\<lambda>_. resolve sentinel)) s
     = (Inr sentinel, s\<lparr>encrypt_calls := Suc (encrypt_calls s),
                           logged := logged s @ [msg e]\<rparr>)"
    by (simp add: request_shape enc)
  show ?thesis
    by (simp add: indexFiles_def indexFilesV2_def query_def queryV2_declared updateIndex_def
        updateIndexV2_def shape)
qed

lemma query_rejecting_encryption:
  "query rejecting_jose (randomBytes counting_source 32)
     (\<lparr>client = None\<rparr> :: string LspClient) ''foo'' io0
   = (Inr EmptyArray,
      \<lparr>logged = [''LspClient: query error: Error: Invalid key size''], sent = [],
       encrypt_calls = 1\<rparr>)"
  by (simp add: query_def request_shape rejecting_jose_def io0_def)

section \<open>Properties: a rejecting transport\<close>

text \<open>
  For the five kinds that name themselves in their log text, and for \<open>query\<close>: when the
  encryption resolves and the transport rejects every request with \<open>e\<close>, the method
  resolves to its sentinel and leaves one log entry, \<open>LspClient: <kind> error: <e>\<close>.
\<close>

lemma transport_rejects_logged_once:
  assumes "client this = Some c"
    and "\<And>p. \<exists>ct. fst (encrypt jose k p s) = Inr ct"
    and "\<And>tag p. c tag p = Inl e"
  shows "fst (indexFiles jose k this request rootPath refresh s) = Inr Undefined
       \<and> logged (snd (indexFiles jose k this request rootPath refresh s))
           = logged s @ [''LspClient: indexFiles error: '' @ template_of e]
       \<and> fst (indexFilesV2 jose k this editor paths rootPath s) = Inr Undefined
       \<and> logged (snd (indexFilesV2 jose k this editor paths rootPath s))
           = logged s @ [''LspClient: indexFilesV2 error: '' @ template_of e]
       \<and> fst (query jose k this request' s) = Inr EmptyArray
       \<and> logged (snd (query jose k this request' s))
           = logged s @ [''LspClient: query error: '' @ template_of e]
       \<and> fst (updateIndex jose k this filePath s) = Inr Undefined
       \<and> logged (snd (updateIndex jose k this filePath s))
           = logged s @ [''LspClient: updateIndex error: '' @ template_of e]
       \<and> fst (updateIndexV2 jose k this filePaths mode s) = Inr Undefined
       \<and> logged (snd (updateIndexV2 jose k this filePaths mode s))
           = logged s @ [''LspClient: updateIndexV2 error: '' @ template_of e]"
proof -
  have shape: "\<And>p tag msg sentinel.
     try_catch
       (await (encrypt jose k p)
          (\<lambda>encrypted. await (sendRequest_opt (Some c) tag encrypted) (\<lambda>resp. resolve resp)))
       (\<lambda>e. await (getLogger_error (msg e)) (\<lambda>_. resolve sentinel)) s
     = (Inr sentinel,
        s\<lparr>encrypt_calls := Suc (encrypt_calls s),
           sent := sent s @ [(tag, projr (fst (encrypt jose k p s)))],
           logged := logged s @ [msg e]\<rparr>)"
  proof -
    fix p tag and msg :: "thrown \<Rightarrow> string" and sentinel :: "'a jsvalue"
    obtain ct where "fst (encrypt jose k p s) = Inr ct"
      using assms(2) by blast
    then show "try_catch
       (await (encrypt jose k p)
          (\<lambda>encrypted. await (sendRequest_opt (Some c) tag encrypted) (\<lambda>resp. resolve resp)))
       (\<lambda>e. await (getLogger_error (msg e)) (\<lambda>_. resolve sentinel)) s
     = (Inr sentinel,
        s\<lparr>encrypt_calls := Suc (encrypt_calls s),
           sent := sent s @ [(tag, projr (fst (encrypt jose k p s)))],
           logged := logged s @ [msg e]\<rparr>)"
      by (simp add: request_shape encrypt_fst assms(3))
  qed
  show ?thesis
    by (simp add: indexFiles_def indexFilesV2_def query_def updateIndex_def updateIndexV2_def
        assms(1) shape)
qed

text \<open>
  Claim C2 says that a rejecting transport leaves exactly one log entry tagged with the
  kind of the request that failed, and that the entry of \<open>queryV2\<close> carries the kind of
  \<open>queryV2\<close>. Evaluated on \<open>queryV2("foo", "bm25")\<close> with a transport that rejects:
  the method resolves to \<open>[]\<close> and logs once, but the entry reads
  \<open>LspClient: query error: ...\<close>, the very entry that \<open>query\<close> leaves under the same
  transport. The handler of \<open>queryV2\<close> carries the log text of \<open>query\<close>, whereas
  \<open>indexFilesV2\<close> and \<open>updateIndexV2\<close> name themselves in theirs.
\<close>

theorem queryV2_rejecting_transport_logs_query_tag:
  "queryV2 resolving_jose (randomBytes counting_source 32)
     \<lparr>client = Some rejecting_client\<rparr> ''foo'' ''bm25'' io0
   = (Inr EmptyArray,
      \<lparr>logged = [''LspClient: query error: Error: Connection is closed.''],
       sent = [(QueryBM25IndexRequestType, ''jwe.0'')],
       encrypt_calls = 1\<rparr>)
   \<and> logged (snd (queryV2 resolving_jose (randomBytes counting_source 32)
        \<lparr>client = Some rejecting_client\<rparr> ''foo'' ''bm25'' io0))
     = logged (snd (query resolving_jose (randomBytes counting_source 32)
        \<lparr>client = Some rejecting_client\<rparr> ''foo'' io0))"
  using queryV2_declared [of resolving_jose "randomBytes counting_source 32"
      "\<lparr>client = Some rejecting_client\<rparr>" "''foo''" Bm25]
  by (simp add: query_def request_shape resolving_jose_def rejecting_client_def io0_def
      digit_char_def)

section \<open>Properties: what goes over the channel\<close>

text \<open>
  Claim C5: with a client present, what each request method other than
  \<open>getLspServerUsage\<close> hands to \<open>sendRequest\<close> is the result of \<open>encrypt\<close> on the
  JSON text of its payload, under the tag of its kind (and nothing is handed over when
  the encryption rejects); \<open>getLspServerUsage\<close> hands over the empty string, not
  encrypted.
\<close>

theorem payloads_encrypted_except_usage:
  assumes "client this = Some c"
  shows "sent (snd (indexFiles jose k this request rootPath refresh s))
           = sent s @ envelope IndexRequestType (fst (encrypt jose k
               (JSON_stringify (JObject [(''filePaths'', JArray (map JString request)),
                                         (''rootPath'', JString rootPath),
                                         (''refresh'', JBool refresh)])) s))
       \<and> sent (snd (indexFilesV2 jose k this editor paths rootPath s))
           = sent s @ envelope BuildIndexRequestType (fst (encrypt jose k
               (JSON_stringify (indexFilesV2_payload editor paths rootPath)) s))
       \<and> sent (snd (query jose k this request' s))
           = sent s @ envelope QueryRequestType (fst (encrypt jose k
               (JSON_stringify (JObject [(''query'', JString request')])) s))
       \<and> sent (snd (queryV2 jose k this request' (target_name t) s))
           = sent s @ envelope (target_request_type t) (fst (encrypt jose k
               (JSON_stringify (target_payload t request')) s))
       \<and> sent (snd (updateIndex jose k this filePath s))
           = sent s @ envelope UpdateIndexRequestType (fst (encrypt jose k
               (JSON_stringify (JObject [(''filePath'', JString filePath)])) s))
       \<and> sent (snd (updateIndexV2 jose k this filePaths mode s))
           = sent s @ envelope UpdateIndexV2RequestType (fst (encrypt jose k
               (JSON_stringify (JObject [(''filePaths'', JArray (map JString filePaths)),
                                         (''updateMode'', JString mode)])) s))
       \<and> sent (snd (getLspServerUsage this s)) = sent s @ [(GetUsageRequestType, [])]"
proof -
  have 1: "sent (snd (indexFiles jose k this request rootPath refresh s))
           = sent s @ envelope IndexRequestType (fst (encrypt jose k
               (JSON_stringify (JObject [(''filePaths'', JArray (map JString request)),
                                         (''rootPath'', JString rootPath),
                                         (''refresh'', JBool refresh)])) s))"
    unfolding indexFiles_def assms by (rule sent_request)
  have 2: "sent (snd (indexFilesV2 jose k this editor paths rootPath s))
           = sent s @ envelope BuildIndexRequestType (fst (encrypt jose k
               (JSON_stringify (indexFilesV2_payload editor paths rootPath)) s))"
    unfolding indexFilesV2_def Let_def assms by (rule sent_request)
  have 3: "sent (snd (query jose k this request' s))
           = sent s @ envelope QueryRequestType (fst (encrypt jose k
               (JSON_stringify (JObject [(''query'', JString request')])) s))"
    unfolding query_def assms by (rule sent_request)
  have 4: "sent (snd (queryV2 jose k this request' (target_name t) s))
           = sent s @ envelope (target_request_type t) (fst (encrypt jose k
               (JSON_stringify (target_payload t request')) s))"
    unfolding queryV2_declared assms by (rule sent_request)
  have 5: "sent (snd (updateIndex jose k this filePath s))
           = sent s @ envelope UpdateIndexRequestType (fst (encrypt jose k
               (JSON_stringify (JObject [(''filePath'', JString filePath)])) s))"
    unfolding updateIndex_def assms by (rule sent_request)
  have 6: "sent (snd (updateIndexV2 jose k this filePaths mode s))
           = sent s @ envelope UpdateIndexV2RequestType (fst (encrypt jose k
               (JSON_stringify (JObject [(''filePaths'', JArray (map JString filePaths)),
                                         (''updateMode'', JString mode)])) s))"
    unfolding updateIndexV2_def Let_def assms by (rule sent_request)
  have 7: "sent (snd (getLspServerUsage this s)) = sent s @ [(GetUsageRequestType, [])]"
    by (simp add: getLspServerUsage_def assms prog_defs split: sum.splits)
  from 1 2 3 4 5 6 7 show ?thesis by blast
qed

text \<open>
  Claim C5 at a concrete input: a client that answers, \<open>query("foo")\<close>,
  \<open>queryV2("a.ts", "codemap")\<close> and \<open>getLspServerUsage()\<close> from the initial state.
\<close>

theorem payloads_encrypted_witness:
  "client \<lparr>client = Some echo_client\<rparr> = Some echo_client
   \<and> sent (snd (query resolving_jose (randomBytes counting_source 32)
        \<lparr>client = Some echo_client\<rparr> ''foo'' io0)) = [(QueryRequestType, ''jwe.0'')]
   \<and> sent (snd (queryV2 resolving_jose (randomBytes counting_source 32)
        \<lparr>client = Some echo_client\<rparr> ''a.ts'' ''codemap'' io0))
      = [(QueryCodeMapIndexRequestType, ''jwe.0'')]
   \<and> sent (snd (getLspServerUsage \<lparr>client = Some echo_client\<rparr> io0))
      = [(GetUsageRequestType, [])]"
  using payloads_encrypted_except_usage
    [where this = "\<lparr>client = Some echo_client\<rparr>" and c = echo_client
       and jose = resolving_jose and k = "randomBytes counting_source 32" and s = io0
       and request' = "''foo''"]
    payloads_encrypted_except_usage
    [where this = "\<lparr>client = Some echo_client\<rparr>" and c = echo_client
       and jose = resolving_jose and k = "randomBytes counting_source 32" and s = io0
       and request' = "''a.ts''" and t = Codemap]
  by (simp add: encrypt_def resolving_jose_def io0_def digit_char_def)

section \<open>Properties: the usage request\<close>

text \<open>
  Claim C6: \<open>getLspServerUsage\<close> dispatches a request only when the channel handle is
  present. When it is absent the method returns \<open>undefined\<close> at once: the state is
  unchanged, so nothing is sent and nothing is logged. When it is present the request
  goes out with the tag of the kind and the empty payload, and the method settles as the
  transport does: a rejection is passed on to the caller and is not logged, which is
  what sets the method apart from the logged error path of the other kinds.
\<close>

theorem getLspServerUsage_only_with_channel:
  "(client this = None \<longrightarrow> getLspServerUsage this s = (Inr Undefined, s))
   \<and> (client this = Some c \<longrightarrow>
        getLspServerUsage this s =
          (case c GetUsageRequestType [] of Inl e \<Rightarrow> Inl e | Inr usage \<Rightarrow> Inr (Response usage),
           s\<lparr>sent := sent s @ [(GetUsageRequestType, [])]\<rparr>))"
  by (simp add: getLspServerUsage_def prog_defs split: sum.splits)

text \<open>
  Claim C6 at concrete inputs: no channel, a client that answers, a client that rejects.
\<close>

theorem getLspServerUsage_witness:
  "client (\<lparr>client = None\<rparr> :: string LspClient) = None
   \<and> getLspServerUsage (\<lparr>client = None\<rparr> :: string LspClient) io0 = (Inr Undefined, io0)
   \<and> client \<lparr>client = Some echo_client\<rparr> = Some echo_client
   \<and> getLspServerUsage \<lparr>client = Some echo_client\<rparr> io0
       = (Inr (Response []), io0\<lparr>sent := [(GetUsageRequestType, [])]\<rparr>)
   \<and> getLspServerUsage \<lparr>client = Some rejecting_client\<rparr> io0
       = (Inl (Error ''Connection is closed.''), io0\<lparr>sent := [(GetUsageRequestType, [])]\<rparr>)"
  using getLspServerUsage_only_with_channel [of "\<lparr>client = None\<rparr> :: string LspClient" io0]
    getLspServerUsage_only_with_channel [of "\<lparr>client = Some echo_client\<rparr>" io0 echo_client]
    getLspServerUsage_only_with_channel
      [of "\<lparr>client = Some rejecting_client\<rparr>" io0 rejecting_client]
  by (simp add: echo_client_def rejecting_client_def io0_def)

section \<open>Properties: the language of indexFilesV2\<close>

text \<open>
  Claim C9: \<open>indexFilesV2\<close> has no parameter for the language (its arguments are the
  paths and the root path; the active editor is the state of the window). The
  \<open>language\<close> field of the payload it builds is the \<open>languageId\<close> of the active
  editor's document, and the string \<open>plaintext\<close> when no editor is active; this
  payload is the one that is encrypted and sent.
\<close>

theorem indexFilesV2_language:
  "json_field ''language'' (indexFilesV2_payload activeTextEditor paths rootPath)
     = Some (JString (case activeTextEditor of
                        None \<Rightarrow> ''plaintext''
                      | Some editor \<Rightarrow> languageId (document editor)))
   \<and> json_field ''language'' (indexFilesV2_payload None paths rootPath)
     = Some (JString ''plaintext'')
   \<and> (client this = Some c \<longrightarrow>
        sent (snd (indexFilesV2 jose k this activeTextEditor paths rootPath s))
          = sent s @ envelope BuildIndexRequestType (fst (encrypt jose k
              (JSON_stringify (indexFilesV2_payload activeTextEditor paths rootPath)) s)))"
proof -
  have "client this = Some c \<Longrightarrow>
        sent (snd (indexFilesV2 jose k this activeTextEditor paths rootPath s))
          = sent s @ envelope BuildIndexRequestType (fst (encrypt jose k
              (JSON_stringify (indexFilesV2_payload activeTextEditor paths rootPath)) s))"
    unfolding indexFilesV2_def Let_def by (simp only: sent_request)
  then show ?thesis by (simp add: indexFilesV2_payload_def)
qed

text \<open>
  Claim C9 at concrete inputs: an active TypeScript editor, and no editor with a
  client that answers.
\<close>

theorem indexFilesV2_language_witness:
  "client \<lparr>client = Some echo_client\<rparr> = Some echo_client
   \<and> json_field ''language''
       (indexFilesV2_payload (Some \<lparr>document = \<lparr>languageId = ''typescript''\<rparr>\<rparr>) [''a.ts''] ''/w'')
     = Some (JString ''typescript'')
   \<and> sent (snd (indexFilesV2 resolving_jose (randomBytes counting_source 32)
        \<lparr>client = Some echo_client\<rparr> None [''a.ts''] ''/w'' io0))
     = [(BuildIndexRequestType, ''jwe.0'')]"
  using indexFilesV2_language
    [of "Some \<lparr>document = \<lparr>languageId = ''typescript''\<rparr>\<rparr>" "[''a.ts'']" "''/w''"
        "\<lparr>client = Some echo_client\<rparr>" echo_client resolving_jose
        "randomBytes counting_source 32" io0]
    indexFilesV2_language
    [of None "[''a.ts'']" "''/w''" "\<lparr>client = Some echo_client\<rparr>" echo_client resolving_jose
        "randomBytes counting_source 32" io0]
  by (simp add: encrypt_def resolving_jose_def io0_def digit_char_def)

section \<open>Properties: the targets of queryV2\<close>

text \<open>
  Claim C10: on each target of the declared type, \<open>queryV2\<close> is the request block with
  the tag the specification gives the target (\<open>bm25\<close>: \<open>QueryBM25IndexRequestType\<close>,
  \<open>vector\<close>: \<open>QueryVectorIndexRequestType\<close>, \<open>codemap\<close>:
  \<open>QueryCodeMapIndexRequestType\<close>) and the payload \<open>{filePath}\<close> for \<open>codemap\<close> and
  \<open>{query}\<close> otherwise; the \<open>default\<close> branch, which throws, is no part of it. With
  a client and an encryption that resolves, exactly one request goes out, under that
  tag; when the transport resolves too, nothing is logged. Distinct targets have
  distinct tags.
\<close>

theorem queryV2_dispatch:
  "queryV2 jose k this q (target_name t) =
     try_catch
       (await (encrypt jose k (JSON_stringify (target_payload t q)))
          (\<lambda>encrypted.
             await (sendRequest_opt (client this) (target_request_type t) encrypted)
               (\<lambda>resp. resolve resp)))
       (\<lambda>e. await (getLogger_error (''LspClient: query error: '' @ template_of e))
               (\<lambda>_. resolve EmptyArray))
   \<and> (client this = Some c \<and> fst (encrypt jose k (JSON_stringify (target_payload t q)) s) = Inr ct
        \<longrightarrow> sent (snd (queryV2 jose k this q (target_name t) s))
              = sent s @ [(target_request_type t, ct)])
   \<and> (client this = Some c \<and> fst (encrypt jose k (JSON_stringify (target_payload t q)) s) = Inr ct
        \<and> c (target_request_type t) ct = Inr r
        \<longrightarrow> queryV2 jose k this q (target_name t) s
              = (Inr (Response r), s\<lparr>encrypt_calls := Suc (encrypt_calls s),
                                      sent := sent s @ [(target_request_type t, ct)]\<rparr>))
   \<and> target_payload t q
        = (if t = Codemap then JObject [(''filePath'', JString q)]
           else JObject [(''query'', JString q)])
   \<and> inj target_request_type"
proof -
  have inj: "inj target_request_type"
  proof (rule injI)
    fix x y assume "target_request_type x = target_request_type y"
    then show "x = y" by (cases x; cases y) simp_all
  qed
  have pl: "target_payload t q
        = (if t = Codemap then JObject [(''filePath'', JString q)]
           else JObject [(''query'', JString q)])"
    by (cases t) simp_all
  show ?thesis
    unfolding queryV2_declared
    by (simp add: request_shape encrypt_fst inj pl split: sum.splits)
qed

text \<open>
  Claim C10 at a concrete input: \<open>queryV2("foo", "vector")\<close> with a client that
  answers.
\<close>

theorem queryV2_dispatch_witness:
  "client \<lparr>client = Some echo_client\<rparr> = Some echo_client
   \<and> fst (encrypt resolving_jose (randomBytes counting_source 32)
        (JSON_stringify (target_payload Vector ''foo'')) io0) = Inr ''jwe.0''
   \<and> echo_client (target_request_type Vector) ''jwe.0'' = Inr ''jwe.0''
   \<and> queryV2 resolving_jose (randomBytes counting_source 32)
        \<lparr>client = Some echo_client\<rparr> ''foo'' ''vector'' io0
      = (Inr (Response ''jwe.0''),
         \<lparr>logged = [], sent = [(QueryVectorIndexRequestType, ''jwe.0'')], encrypt_calls = 1\<rparr>)"
  using queryV2_dispatch
    [of resolving_jose "randomBytes counting_source 32" "\<lparr>client = Some echo_client\<rparr>"
        "''foo''" Vector echo_client io0 "''jwe.0''" "''jwe.0''"]
  by (simp add: prog_defs resolving_jose_def echo_client_def io0_def digit_char_def)

text \<open>
  Outside the declared type the \<open>default\<close> branch is taken: the error it throws is
  caught, logged, and \<open>[]\<close> is returned.
\<close>

lemma queryV2_undeclared:
  assumes "target \<noteq> ''bm25''" "target \<noteq> ''vector''" "target \<noteq> ''codemap''"
    and "fst (encrypt jose k (JSON_stringify (JObject [(''query'', JString q)])) s) = Inr ct"
  shows "queryV2 jose k this q target s
     = (Inr EmptyArray, s\<lparr>encrypt_calls := Suc (encrypt_calls s),
          logged := logged s @ [''LspClient: query error: Error: invalid target: '' @ target]\<rparr>)"
  using assms by (simp add: queryV2_def prog_defs)

section \<open>Properties: the bootstrap message\<close>

lemma b64_alphabet_plain: "\<forall>c \<in> set b64_alphabet. escape_char c = [c] \<and> c \<noteq> CHR 0x0A"
  by (simp add: b64_alphabet_def escape_char_def)

lemma b64_char_plain:
  assumes "n < 64"
  shows "escape_char (b64_char n) = [b64_char n] \<and> b64_char n \<noteq> CHR 0x0A"
proof -
  have "length b64_alphabet = 64" by (simp add: b64_alphabet_def)
  with assms have "b64_char n \<in> set b64_alphabet"
    unfolding b64_char_def by (metis nth_mem)
  then show ?thesis using b64_alphabet_plain by blast
qed

lemma pad_plain: "escape_char (CHR ''='') = ''=''"
  by (simp add: escape_char_def)

lemma unat_byte: "unat (a :: byte) < 256"
  using unsigned_less [of a, where ?'a = nat] by simp

lemma base64_plain: "\<forall>c \<in> set (toString_base64 k). escape_char c = [c] \<and> c \<noteq> CHR 0x0A"
proof (induction k rule: toString_base64.induct)
  case 1
  then show ?case by simp
next
  case (2 a)
  have "unat a div 4 < 64" "(unat a mod 4) * 16 < 64" using unat_byte [of a] by auto
  then show ?case by (simp add: b64_char_plain pad_plain)
next
  case (3 a b)
  have "unat a div 4 < 64" "(unat a mod 4) * 16 + unat b div 16 < 64" "(unat b mod 16) * 4 < 64"
    using unat_byte [of a] unat_byte [of b] by auto
  then show ?case by (simp add: b64_char_plain pad_plain)
next
  case (4 a b c rest)
  have "unat a div 4 < 64" "(unat a mod 4) * 16 + unat b div 16 < 64"
    "(unat b mod 16) * 4 + unat c div 64 < 64" "unat c mod 64 < 64"
    using unat_byte [of a] unat_byte [of b] unat_byte [of c] by auto
  with 4 show ?case by (simp add: b64_char_plain)
qed

lemma concat_escape_plain:
  "\<forall>c \<in> set s. escape_char c = [c] \<Longrightarrow> concat (map escape_char s) = s"
  by (induction s) auto

lemma quote_base64: "quote_json (toString_base64 k) = [CHR 0x22] @ toString_base64 k @ [CHR 0x22]"
  using base64_plain [of k] by (simp add: quote_json_def concat_escape_plain)

lemma length_base64: "length (toString_base64 k) = 4 * ((length k + 2) div 3)"
proof (induction k rule: toString_base64.induct)
  case (4 a b c rest)
  have "(length (a # b # c # rest) + 2) div 3 = Suc ((length rest + 2) div 3)" by simp
  with 4 show ?case by simp
qed simp_all

lemma init_request:
  "JSON_stringify (JObject [(''version'', JString ''1.0''), (''mode'', JString ''JWT''),
     (''key'', JString (toString_base64 k))]) = init_line k"
  by (simp add: quote_base64 init_line_def) (simp add: quote_json_def escape_char_def)

lemma init_line_no_newline: "CHR 0x0A \<notin> set (init_line k)"
  using base64_plain [of k] by (auto simp add: init_line_def)

lemma writeEncryptionInit_chunks:
  "chunks (writeEncryptionInit k stream) = chunks stream @ [init_line k, ''\<newline>'']"
  unfolding writeEncryptionInit_def Let_def init_request by (simp add: stream_write_def)

lemma length_randomBytes: "length (randomBytes src n) = n"
  by (simp add: randomBytes_def)

lemma base64_counting:
  "toString_base64 (randomBytes counting_source 32) = ''AAECAwQFBgcICQoLDA0ODxAREhMUFRYXGBkaGxwdHh8=''"
  by code_simp

text \<open>What the singleton getter and \<open>activate\<close> leave of the module's fields.\<close>

lemma instance_fields:
  "key (snd (LspClient_instance m)) = key m"
  "process_env (snd (LspClient_instance m)) = process_env m"
  "children (snd (LspClient_instance m)) = children m"
  "world (snd (LspClient_instance m)) = world m"
  by (simp_all add: LspClient_instance_def split: option.splits)

lemma activate_fields:
  "key (activate settings lc m) = key m"
  "world (activate settings lc m) = world m"
  "process_env (activate settings lc m) =
     (let env1 = (if isLocalIndexGPUEnabled settings
                  then (process_env m)(''Q_ENABLE_GPU'' \<mapsto> ''true'')
                  else (process_env m)(''Q_ENABLE_GPU'' := None))
      in if getIndexWorkerThreads settings > 0 \<and> getIndexWorkerThreads settings < 100
         then env1(''Q_WORKER_THREADS'' \<mapsto> Number_toString (getIndexWorkerThreads settings))
         else env1(''Q_WORKER_THREADS'' := None))"
  "children (activate settings lc m) =
     children m @ [\<lparr>child_env = process_env (activate settings lc m),
                    stdin = writeEncryptionInit (key m) \<lparr>chunks = []\<rparr>\<rparr>]"
  by (simp_all add: activate_def Let_def set_client_def instance_fields split: prod.splits)
    (simp_all add: LspClient_instance_def split: option.splits)

text \<open>
  Claim C4 says that, for every output stream, the line that \<open>writeEncryptionInit\<close>
  writes comes before any other data on that stream. The function has no say in what
  the stream already holds: it appends. On a stream to which \<open>x\<close> has been written
  the data is \<open>x\<close>, then the line, and the first character of the stream is not the
  first character of the line.
\<close>

theorem writeEncryptionInit_appends_counterexample:
  \<open>stream_data (writeEncryptionInit (randomBytes counting_source 32) \<lparr>chunks = [''x'']\<rparr>)
     = ''x{"version":"1.0","mode":"JWT","key":"AAECAwQFBgcICQoLDA0ODxAREhMUFRYXGBkaGxwdHh8="}\<newline>''
   \<and> hd (stream_data (writeEncryptionInit (randomBytes counting_source 32) \<lparr>chunks = [''x'']\<rparr>))
     \<noteq> hd (init_line (randomBytes counting_source 32))\<close>
  by (simp add: stream_data_def writeEncryptionInit_chunks init_line_def base64_counting)

text \<open>
  Claim C4, amended: for every output stream, \<open>writeEncryptionInit\<close> appends, after
  what the stream already holds, exactly one line: the JSON text of the object with
  \<open>version\<close> \<open>1.0\<close>, \<open>mode\<close> \<open>JWT\<close> and \<open>key\<close> the base64 text of the session key
  (44 characters for 32 bytes), then one newline; the JSON text holds no newline. The
  line is the first data on the stream where the stream is empty when the function is
  called, as it is in \<open>activate\<close>: there the stream is the standard input of the child
  just spawned, to which nothing has been written.
\<close>

theorem writeEncryptionInit_one_line:
  assumes "length k = 32"
  shows \<open>chunks (writeEncryptionInit k stream) = chunks stream @ [init_line k, ''\<newline>'']
    \<and> stream_data (writeEncryptionInit k stream) = stream_data stream @ init_line k @ ''\<newline>''
    \<and> init_line k = JSON_stringify (JObject [(''version'', JString ''1.0''),
                                             (''mode'', JString ''JWT''),
                                             (''key'', JString (toString_base64 k))])
    \<and> init_line k = ''{"version":"1.0","mode":"JWT","key":"'' @ toString_base64 k @ ''"}''
    \<and> length (toString_base64 k) = 44
    \<and> CHR 0x0A \<notin> set (init_line k)
    \<and> stream_data (stdin (last (children (activate settings lc m))))
        = init_line (key m) @ ''\<newline>''\<close>
proof -
  have 1: \<open>chunks (writeEncryptionInit k stream) = chunks stream @ [init_line k, ''\<newline>'']\<close>
    by (rule writeEncryptionInit_chunks)
  have 2: \<open>stream_data (writeEncryptionInit k stream)
             = stream_data stream @ init_line k @ ''\<newline>''\<close>
    by (simp add: stream_data_def writeEncryptionInit_chunks)
  have 3: "init_line k = JSON_stringify (JObject [(''version'', JString ''1.0''),
                                                 (''mode'', JString ''JWT''),
                                                 (''key'', JString (toString_base64 k))])"
    by (simp only: init_request)
  have 4: \<open>init_line k = ''{"version":"1.0","mode":"JWT","key":"'' @ toString_base64 k @ ''"}''\<close>
    by (simp add: init_line_def)
  have 5: "length (toString_base64 k) = 44"
    using assms by (simp add: length_base64)
  have 6: "CHR 0x0A \<notin> set (init_line k)"
    by (rule init_line_no_newline)
  have 7: \<open>stream_data (stdin (last (children (activate settings lc m))))
             = init_line (key m) @ ''\<newline>''\<close>
    by (simp add: activate_fields stream_data_def writeEncryptionInit_chunks)
  from 1 2 3 4 5 6 7 show ?thesis by blast
qed

text \<open>Claim C4 at a concrete input: the key of bytes 0 to 31, an empty stream.\<close>

theorem writeEncryptionInit_witness:
  \<open>length (randomBytes counting_source 32) = 32
   \<and> stream_data (writeEncryptionInit (randomBytes counting_source 32) \<lparr>chunks = []\<rparr>)
     = ''{"version":"1.0","mode":"JWT","key":"AAECAwQFBgcICQoLDA0ODxAREhMUFRYXGBkaGxwdHh8="}\<newline>''\<close>
proof -
  have len: "length (randomBytes counting_source 32) = 32"
    by (simp add: length_randomBytes)
  from writeEncryptionInit_one_line [OF len, of "\<lparr>chunks = []\<rparr>"]
  have \<open>stream_data (writeEncryptionInit (randomBytes counting_source 32) \<lparr>chunks = []\<rparr>)
        = stream_data \<lparr>chunks = []\<rparr> @ init_line (randomBytes counting_source 32) @ ''\<newline>''\<close>
    and \<open>init_line (randomBytes counting_source 32)
        = ''{"version":"1.0","mode":"JWT","key":"'' @ toString_base64 (randomBytes counting_source 32)
          @ ''"}''\<close>
    by blast+
  then show ?thesis
    using len by (simp add: base64_counting stream_data_def)
qed

section \<open>Properties: the environment of the child\<close>

text \<open>
  Claim C7: when \<open>activate\<close> spawns the child, \<open>Q_WORKER_THREADS\<close> is set, to the
  decimal text of the setting, if and only if \<open>getIndexWorkerThreads()\<close> is above 0
  and below 100, that is from 1 to 99, and \<open>Q_ENABLE_GPU\<close> is set (to \<open>true\<close>) if and
  only if \<open>isLocalIndexGPUEnabled()\<close> holds; otherwise the variable is deleted. The
  child is started with this environment.
\<close>

theorem activate_environment:
  "process_env (activate settings lc m) ''Q_WORKER_THREADS''
     = (if 0 < getIndexWorkerThreads settings \<and> getIndexWorkerThreads settings < 100
        then Some (Number_toString (getIndexWorkerThreads settings)) else None)
   \<and> process_env (activate settings lc m) ''Q_ENABLE_GPU''
     = (if isLocalIndexGPUEnabled settings then Some ''true'' else None)
   \<and> child_env (last (children (activate settings lc m))) = process_env (activate settings lc m)
   \<and> (process_env (activate settings lc m) ''Q_WORKER_THREADS'' \<noteq> None)
     = (getIndexWorkerThreads settings \<in> {1..99})
   \<and> (process_env (activate settings lc m) ''Q_ENABLE_GPU'' \<noteq> None)
     = isLocalIndexGPUEnabled settings"
  by (auto simp add: activate_fields Let_def)

text \<open>
  Claim C7 at concrete inputs: 0 threads and no GPU over an environment that has both
  variables; 50 threads and GPU; 150 threads.
\<close>

theorem activate_environment_witness:
  "process_env (activate \<lparr>getIndexWorkerThreads = 0, isLocalIndexGPUEnabled = False\<rparr> echo_client
      (module_load counting_source [''Q_WORKER_THREADS'' \<mapsto> ''8'', ''Q_ENABLE_GPU'' \<mapsto> ''true'']))
      ''Q_WORKER_THREADS'' = None
   \<and> process_env (activate \<lparr>getIndexWorkerThreads = 0, isLocalIndexGPUEnabled = False\<rparr> echo_client
      (module_load counting_source [''Q_WORKER_THREADS'' \<mapsto> ''8'', ''Q_ENABLE_GPU'' \<mapsto> ''true'']))
      ''Q_ENABLE_GPU'' = None
   \<and> process_env (activate \<lparr>getIndexWorkerThreads = 50, isLocalIndexGPUEnabled = True\<rparr> echo_client
      (module_load counting_source Map.empty)) ''Q_WORKER_THREADS'' = Some ''50''
   \<and> process_env (activate \<lparr>getIndexWorkerThreads = 50, isLocalIndexGPUEnabled = True\<rparr> echo_client
      (module_load counting_source Map.empty)) ''Q_ENABLE_GPU'' = Some ''true''
   \<and> process_env (activate \<lparr>getIndexWorkerThreads = 150, isLocalIndexGPUEnabled = True\<rparr> echo_client
      (module_load counting_source [''Q_WORKER_THREADS'' \<mapsto> ''8''])) ''Q_WORKER_THREADS'' = None"
  using activate_environment
      [of "\<lparr>getIndexWorkerThreads = 0, isLocalIndexGPUEnabled = False\<rparr>" echo_client
          "module_load counting_source [''Q_WORKER_THREADS'' \<mapsto> ''8'', ''Q_ENABLE_GPU'' \<mapsto> ''true'']"]
    activate_environment
      [of "\<lparr>getIndexWorkerThreads = 50, isLocalIndexGPUEnabled = True\<rparr>" echo_client
          "module_load counting_source Map.empty"]
    activate_environment
      [of "\<lparr>getIndexWorkerThreads = 150, isLocalIndexGPUEnabled = True\<rparr>" echo_client
          "module_load counting_source [''Q_WORKER_THREADS'' \<mapsto> ''8'']"]
  by (simp add: Number_toString_def digit_char_def)

section \<open>Properties: one key, one client\<close>

lemma load_inv: "module_inv (randomBytes src 32) (module_load src penv)"
  by (simp add: module_inv_def module_load_def)

lemma instance_inv:
  assumes "module_inv K m"
  shows "module_inv K (snd (LspClient_instance m))"
    and "fst (LspClient_instance m) = 0"
    and "length (heap (snd (LspClient_instance m))) = 1"
    and "static_instance (snd (LspClient_instance m)) = Some 0"
  using assms by (auto simp add: module_inv_def LspClient_instance_def split: option.splits)

lemma instance_idem:
  "static_instance m = Some a \<Longrightarrow> LspClient_instance m = (a, m)"
  by (simp add: LspClient_instance_def)

lemma on_instance_inv:
  assumes "module_inv K m"
  shows "module_inv K (on_instance method m)"
proof -
  obtain a m1 where am: "LspClient_instance m = (a, m1)" by (cases "LspClient_instance m")
  with instance_inv(1) [OF assms] have "module_inv K m1" by simp
  then show ?thesis by (simp add: on_instance_def am module_inv_def)
qed

lemma set_client_inv:
  assumes "module_inv K m"
  shows "module_inv K (set_client a c m)"
  using assms by (auto simp add: module_inv_def set_client_def)

lemma activate_inv:
  assumes "module_inv K m"
  shows "module_inv K (activate settings lc m)"
proof -
  let ?m1 = "snd (LspClient_instance m)"
  have m1: "module_inv K ?m1" by (rule instance_inv(1) [OF assms])
  have si: "static_instance ?m1 = Some 0" by (rule instance_inv(4) [OF assms])
  have k: "key ?m1 = K" using m1 by (simp add: module_inv_def)
  have "\<And>env ch. module_inv K (?m1\<lparr>process_env := env,
           children := children ?m1 @ [\<lparr>child_env = ch, stdin = writeEncryptionInit K \<lparr>chunks = []\<rparr>\<rparr>]\<rparr>)"
    using m1 by (simp add: module_inv_def)
  then show ?thesis
    by (simp add: activate_def Let_def k instance_idem si set_client_inv)
qed

lemma deactivate_inv:
  assumes "module_inv K m"
  shows "module_inv K (deactivate m)"
proof -
  obtain a m1 where am: "LspClient_instance m = (a, m1)" by (cases "LspClient_instance m")
  with instance_inv(1) [OF assms] have m1: "module_inv K m1" by simp
  then have "module_inv K (snd (LspClient_instance m1))" by (rule instance_inv(1))
  with m1 show ?thesis by (simp add: deactivate_def am split: option.splits)
qed

lemma exec_inv:
  assumes "module_inv K m"
  shows "module_inv K (exec jose c m)"
  using assms by (cases c) (simp_all add: instance_inv(1) activate_inv deactivate_inv on_instance_inv)

lemma run_inv:
  assumes "module_inv K m"
  shows "module_inv K (run jose calls m)"
  using assms unfolding run_def
  by (induction calls arbitrary: m) (simp_all add: exec_inv)

text \<open>
  The key under which the methods encrypt. Two encryption libraries that agree on the
  key \<open>K\<close> cannot be told apart by a method called with \<open>K\<close>, nor by a call on a
  module whose key is \<open>K\<close>, nor by a run from such a module: no encryption in the
  run is done under another key.
\<close>

lemma encrypt_agree:
  assumes "\<And>pt h n. jose1 pt h K n = jose2 pt h K n"
  shows "encrypt jose1 K p = encrypt jose2 K p"
  by (rule ext) (simp add: encrypt_def assms)

lemma methods_agree:
  assumes "\<And>pt h n. jose1 pt h K n = jose2 pt h K n"
  shows "indexFiles jose1 K this request rootPath refresh
           = indexFiles jose2 K this request rootPath refresh"
    and "indexFilesV2 jose1 K this editor paths rootPath
           = indexFilesV2 jose2 K this editor paths rootPath"
    and "query jose1 K this request' = query jose2 K this request'"
    and "queryV2 jose1 K this request' target = queryV2 jose2 K this request' target"
    and "updateIndex jose1 K this filePath = updateIndex jose2 K this filePath"
    and "updateIndexV2 jose1 K this filePaths mode = updateIndexV2 jose2 K this filePaths mode"
  unfolding indexFiles_def indexFilesV2_def query_def queryV2_def updateIndex_def updateIndexV2_def
    Let_def encrypt_agree [of jose1 K jose2, OF assms]
  by (rule refl)+

lemma exec_agree:
  assumes "\<And>pt h n. jose1 pt h K n = jose2 pt h K n" and "key m = K"
  shows "exec jose1 c m = exec jose2 c m"
  using assms(2)
  by (cases c)
    (simp_all add: methods_agree [of jose1 K jose2, OF assms(1)]
       encrypt_agree [of jose1 K jose2, OF assms(1)])

lemma run_agree:
  assumes "\<And>pt h n. jose1 pt h K n = jose2 pt h K n" and "module_inv K m"
  shows "run jose1 calls m = run jose2 calls m"
  using assms(2) unfolding run_def
proof (induction calls arbitrary: m)
  case Nil
  then show ?case by simp
next
  case (Cons c calls)
  from Cons.prems have k: "key m = K" by (simp add: module_inv_def)
  have step: "exec jose1 c m = exec jose2 c m"
    using assms(1) k by (rule exec_agree [of jose1 K jose2 m c])
  have "module_inv K (exec jose2 c m)" by (rule exec_inv [OF Cons.prems])
  then have "fold (exec jose1) calls (exec jose2 c m) = fold (exec jose2) calls (exec jose2 c m)"
    by (rule Cons.IH)
  with step show ?case by simp
qed

text \<open>
  Claim C8: after loading the module and any sequence of calls, the key is the 32 bytes
  drawn at load time; at most one \<open>LspClient\<close> object exists, every access to
  \<open>LspClient.instance\<close> returns the same reference, and after an access exactly one
  object exists; every child has got the bootstrap message of that key; an encryption
  runs under that key, and so did every encryption of the run: the run is the same for
  any two encryption libraries that agree on that key, whatever they do on other keys.
\<close>

theorem one_key_one_instance:
  "(let M = run jose calls (module_load src penv) in
      key M = randomBytes src 32
    \<and> length (key M) = 32
    \<and> length (heap M) \<le> 1
    \<and> fst (LspClient_instance M) = 0
    \<and> length (heap (snd (LspClient_instance M))) = 1
    \<and> fst (LspClient_instance (snd (LspClient_instance M))) = fst (LspClient_instance M)
    \<and> (\<forall>child \<in> set (children M).
          stdin child = writeEncryptionInit (randomBytes src 32) \<lparr>chunks = []\<rparr>)
    \<and> fst (encrypt jose (key M) payload (world M))
        = jose (TextEncoder_encode payload) \<lparr>alg = ''dir'', enc = ''A256GCM''\<rparr>
            (randomBytes src 32) (encrypt_calls (world M))
    \<and> ((\<forall>pt h n. jose pt h (randomBytes src 32) n = jose' pt h (randomBytes src 32) n)
         \<longrightarrow> run jose' calls (module_load src penv) = M))"
proof -
  define M where "M = run jose calls (module_load src penv)"
  have inv: "module_inv (randomBytes src 32) M"
    unfolding M_def by (rule run_inv [OF load_inv])
  have 1: "key M = randomBytes src 32" using inv by (simp add: module_inv_def)
  have 2: "length (key M) = 32" by (simp add: 1 randomBytes_def)
  have 3: "length (heap M) \<le> 1" using inv by (auto simp add: module_inv_def)
  have 4: "fst (LspClient_instance M) = 0" by (rule instance_inv(2) [OF inv])
  have 5: "length (heap (snd (LspClient_instance M))) = 1" by (rule instance_inv(3) [OF inv])
  have 6: "fst (LspClient_instance (snd (LspClient_instance M))) = fst (LspClient_instance M)"
    using instance_inv(2) [OF instance_inv(1) [OF inv]] 4 by simp
  have 7: "\<forall>child \<in> set (children M).
          stdin child = writeEncryptionInit (randomBytes src 32) \<lparr>chunks = []\<rparr>"
    using inv by (simp add: module_inv_def list_all_iff)
  have 8: "fst (encrypt jose (key M) payload (world M))
        = jose (TextEncoder_encode payload) \<lparr>alg = ''dir'', enc = ''A256GCM''\<rparr>
            (randomBytes src 32) (encrypt_calls (world M))"
    by (simp add: encrypt_def 1)
  have 9: "(\<forall>pt h n. jose pt h (randomBytes src 32) n = jose' pt h (randomBytes src 32) n)
         \<longrightarrow> run jose' calls (module_load src penv) = M"
  proof
    assume "\<forall>pt h n. jose pt h (randomBytes src 32) n = jose' pt h (randomBytes src 32) n"
    then have "\<And>pt h n. jose' pt h (randomBytes src 32) n = jose pt h (randomBytes src 32) n"
      by simp
    then show "run jose' calls (module_load src penv) = M"
      unfolding M_def by (rule run_agree [OF _ load_inv])
  qed
  from 1 2 3 4 5 6 7 8 9 show ?thesis
    unfolding Let_def M_def [symmetric] by blast
qed

text \<open>
  Claim C8 at a concrete run: an access, an activation, a query, a deactivation,
  another access, which goes the same way with a library that rejects every key but
  the one drawn at load time; and, with an encryption that shows its key, what an
  activation, a query and an index update send: the base64 text of that key.
\<close>

theorem one_key_one_instance_witness:
  "key (run resolving_jose
          [CallInstance, CallActivate \<lparr>getIndexWorkerThreads = 50, isLocalIndexGPUEnabled = True\<rparr> echo_client,
           CallQuery ''foo'', CallDeactivate, CallInstance]
          (module_load counting_source Map.empty)) = randomBytes counting_source 32
   \<and> fst (LspClient_instance (run resolving_jose
          [CallInstance, CallActivate \<lparr>getIndexWorkerThreads = 50, isLocalIndexGPUEnabled = True\<rparr> echo_client,
           CallQuery ''foo'', CallDeactivate, CallInstance]
          (module_load counting_source Map.empty))) = 0
   \<and> length (heap (run resolving_jose
          [CallInstance, CallActivate \<lparr>getIndexWorkerThreads = 50, isLocalIndexGPUEnabled = True\<rparr> echo_client,
           CallQuery ''foo'', CallDeactivate, CallInstance]
          (module_load counting_source Map.empty))) = 1
   \<and> map stdin (children (run resolving_jose
          [CallInstance, CallActivate \<lparr>getIndexWorkerThreads = 50, isLocalIndexGPUEnabled = True\<rparr> echo_client,
           CallQuery ''foo'', CallDeactivate, CallInstance]
          (module_load counting_source Map.empty)))
      = [writeEncryptionInit (randomBytes counting_source 32) \<lparr>chunks = []\<rparr>]
   \<and> run (only_under (randomBytes counting_source 32) resolving_jose)
          [CallInstance, CallActivate \<lparr>getIndexWorkerThreads = 50, isLocalIndexGPUEnabled = True\<rparr> echo_client,
           CallQuery ''foo'', CallDeactivate, CallInstance]
          (module_load counting_source Map.empty)
      = run resolving_jose
          [CallInstance, CallActivate \<lparr>getIndexWorkerThreads = 50, isLocalIndexGPUEnabled = True\<rparr> echo_client,
           CallQuery ''foo'', CallDeactivate, CallInstance]
          (module_load counting_source Map.empty)
   \<and> sent (world (run key_revealing_jose
          [CallActivate \<lparr>getIndexWorkerThreads = 50, isLocalIndexGPUEnabled = True\<rparr> echo_client,
           CallQuery ''foo'', CallUpdateIndexV2 [''a.ts''] ''add'']
          (module_load counting_source Map.empty)))
      = [(QueryRequestType, ''AAECAwQFBgcICQoLDA0ODxAREhMUFRYXGBkaGxwdHh8=''),
         (UpdateIndexV2RequestType, ''AAECAwQFBgcICQoLDA0ODxAREhMUFRYXGBkaGxwdHh8='')]"
proof -
  let ?M = "run resolving_jose
          [CallInstance, CallActivate \<lparr>getIndexWorkerThreads = 50, isLocalIndexGPUEnabled = True\<rparr> echo_client,
           CallQuery ''foo'', CallDeactivate, CallInstance]
          (module_load counting_source Map.empty)"
  from one_key_one_instance [of resolving_jose
          "[CallInstance, CallActivate \<lparr>getIndexWorkerThreads = 50, isLocalIndexGPUEnabled = True\<rparr> echo_client,
           CallQuery ''foo'', CallDeactivate, CallInstance]" counting_source Map.empty]
  have k: "key ?M = randomBytes counting_source 32" and i: "fst (LspClient_instance ?M) = 0"
    unfolding Let_def by blast+
  from one_key_one_instance [of resolving_jose
          "[CallInstance, CallActivate \<lparr>getIndexWorkerThreads = 50, isLocalIndexGPUEnabled = True\<rparr> echo_client,
           CallQuery ''foo'', CallDeactivate, CallInstance]" counting_source Map.empty _
          "only_under (randomBytes counting_source 32) resolving_jose"]
  have u: "run (only_under (randomBytes counting_source 32) resolving_jose)
          [CallInstance, CallActivate \<lparr>getIndexWorkerThreads = 50, isLocalIndexGPUEnabled = True\<rparr> echo_client,
           CallQuery ''foo'', CallDeactivate, CallInstance]
          (module_load counting_source Map.empty) = ?M"
    unfolding Let_def by (simp add: only_under_def)
  have h: "length (heap ?M) = 1"
    by (simp add: run_def module_load_def LspClient_instance_def activate_def set_client_def
        on_instance_def deactivate_def Let_def)
  have c: "map stdin (children ?M) = [writeEncryptionInit (randomBytes counting_source 32) \<lparr>chunks = []\<rparr>]"
    by (simp add: run_def module_load_def LspClient_instance_def activate_def set_client_def
        on_instance_def deactivate_def Let_def)
  have r: "sent (world (run key_revealing_jose
          [CallActivate \<lparr>getIndexWorkerThreads = 50, isLocalIndexGPUEnabled = True\<rparr> echo_client,
           CallQuery ''foo'', CallUpdateIndexV2 [''a.ts''] ''add'']
          (module_load counting_source Map.empty)))
      = [(QueryRequestType, ''AAECAwQFBgcICQoLDA0ODxAREhMUFRYXGBkaGxwdHh8=''),
         (UpdateIndexV2RequestType, ''AAECAwQFBgcICQoLDA0ODxAREhMUFRYXGBkaGxwdHh8='')]"
    by (simp add: run_def module_load_def LspClient_instance_def activate_def set_client_def
        on_instance_def Let_def query_def updateIndexV2_def request_shape key_revealing_jose_def
        echo_client_def base64_counting)
  from k i h c u r show ?thesis by blast
qed

end
